theory Spec2Isabelle
  imports Main "HOL-Library.AList"
begin

section \<open>Errors\<close>

text \<open>
  Every \<^verbatim>\<open>raise\<close> of the modelled code is a value of type \<open>exn\<close>; a function that can
  raise returns \<open>exn + 'a\<close>, with \<open>Inl\<close> for the exception.

  The detail messages of \<^verbatim>\<open>src/api/auth.py\<close> that are written in Ukrainian are named by
  constructors, since the theory text is ASCII:
  \<^item> \<open>Wrong_login_or_password\<close>: the detail of \<^verbatim>\<open>login_user\<close>, line 63;
  \<^item> \<open>Email_not_confirmed\<close>: the detail of \<^verbatim>\<open>login_user\<close>, line 69.
  The other two are the English strings of the source:
  \<^verbatim>\<open>"Could not validate credentials"\<close> (\<^verbatim>\<open>src/services/auth.py\<close>, line 40) and
  \<^verbatim>\<open>"Invalid or expired token"\<close> (\<^verbatim>\<open>src/api/auth.py\<close>, lines 134 and 149).
\<close>

datatype detail =
    Could_not_validate_credentials
  | Wrong_login_or_password
  | Email_not_confirmed
  | Invalid_or_expired_token

text \<open>
  The exceptions of python-jose all derive from \<^verbatim>\<open>JWTError\<close>; the constructor's
  argument says which check of \<^verbatim>\<open>jwt.decode\<close> failed. The other exceptions are
  FastAPI's \<^verbatim>\<open>HTTPException\<close> with its status code and detail, Python's \<^verbatim>\<open>KeyError\<close> and
  \<^verbatim>\<open>AttributeError\<close> with the key and the attribute, SQLAlchemy's \<^verbatim>\<open>MultipleResultsFound\<close>,
  \<^verbatim>\<open>NoResultFound\<close> and \<^verbatim>\<open>IntegrityError\<close>, redis-py's \<^verbatim>\<open>RedisError\<close>, and pydantic's
  \<^verbatim>\<open>ValidationError\<close>.
\<close>

datatype jwt_failure =
    Bad_structure
  | Bad_algorithm
  | Bad_signature
  | Bad_payload
  | Claims_error
  | Expired_signature

datatype exn =
    HTTPException nat detail
  | JWTError jwt_failure
  | KeyError string
  | AttributeError string
  | MultipleResultsFound
  | NoResultFound
  | IntegrityError
  | RedisError
  | ValidationError

section \<open>The tables\<close>

text \<open>
  \<^verbatim>\<open>src/database/models.py\<close> is not among the sources. The columns are the ones the
  repositories, the routes and the tests read and write. A column that the tests leave
  unset when they build a row (\<^verbatim>\<open>Contact(id=1, first_name="Test", ...)\<close>) is nullable here:
  \<open>None\<close> is SQL \<^verbatim>\<open>NULL\<close>.
\<close>

datatype user_role = USER | ADMIN

record user =
  u_id :: int
  u_username :: string
  u_email :: string
  u_hashed_password :: string
  u_role :: user_role
  u_confirmed :: bool
  u_avatar :: "string option"

record date =
  year :: int
  month :: int
  day :: int

record contact =
  c_id :: int
  c_user_id :: int
  c_first_name :: "string option"
  c_last_name :: "string option"
  c_email :: "string option"
  c_phone :: "string option"
  c_birthday :: "date option"
  c_extra_info :: "string option"

text \<open>
  \<^verbatim>\<open>Result.scalar_one_or_none()\<close> of SQLAlchemy: no row gives \<^verbatim>\<open>None\<close>, one row gives the
  row, more rows raise \<^verbatim>\<open>MultipleResultsFound\<close>.
\<close>

fun scalar_one_or_none :: "'a list \<Rightarrow> exn + 'a option" where
  "scalar_one_or_none [] = Inr None"
| "scalar_one_or_none [x] = Inr (Some x)"
| "scalar_one_or_none (x # y # zs) = Inl MultipleResultsFound"

section \<open>ContactRepository\<close>

text \<open>
  \<^verbatim>\<open>get_contact\<close> (\<^verbatim>\<open>src/repository/contacts.py\<close>, lines 39-52):
  \<^verbatim>\<open>select(Contact).where(Contact.id == contact_id, Contact.user_id == user.id)\<close>,
  then \<^verbatim>\<open>scalar_one_or_none()\<close>. The table is the list of its rows.
\<close>

definition get_contact :: "contact list \<Rightarrow> int \<Rightarrow> user \<Rightarrow> exn + contact option" where
  "get_contact tbl contact_id usr =
     scalar_one_or_none (filter (\<lambda>c. c_id c = contact_id \<and> c_user_id c = u_id usr) tbl)"


section \<open>UserRepository\<close>

text \<open>
  \<^verbatim>\<open>get_user_by_username\<close> and \<^verbatim>\<open>get_user_by_email\<close> (\<^verbatim>\<open>src/repository/users.py\<close>, lines
  34-60): \<^verbatim>\<open>select(User).filter_by(...)\<close>, then \<^verbatim>\<open>scalar_one_or_none()\<close>.
\<close>

definition get_user_by_username :: "user list \<Rightarrow> string \<Rightarrow> exn + user option" where
  "get_user_by_username db username = scalar_one_or_none (filter (\<lambda>r. u_username r = username) db)"

definition get_user_by_email :: "user list \<Rightarrow> string \<Rightarrow> exn + user option" where
  "get_user_by_email db email = scalar_one_or_none (filter (\<lambda>r. u_email r = email) db)"

text \<open>
  \<^verbatim>\<open>confirmed_email\<close> (lines 87-99):
  \<^verbatim>\<open>
    user = await self.get_user_by_email(email)
    user.confirmed = True
    await self.db.commit()
  \<close>
  There is no test of \<^verbatim>\<open>user\<close>: when the query returns \<^verbatim>\<open>None\<close>, the assignment raises
  \<^verbatim>\<open>AttributeError\<close> ('NoneType' object has no attribute 'confirmed') and the commit is not
  reached. Otherwise the commit writes the changed attribute to the row with the
  object's primary key. The function returns the exception or \<^verbatim>\<open>None\<close>, and the table.
\<close>

definition confirmed_email :: "user list \<Rightarrow> string \<Rightarrow> (exn + unit) \<times> user list" where
  "confirmed_email db email =
     (case get_user_by_email db email of
        Inl e \<Rightarrow> (Inl e, db)
      | Inr None \<Rightarrow> (Inl (AttributeError ''confirmed''), db)
      | Inr (Some usr) \<Rightarrow>
          (Inr (), map (\<lambda>r. if u_id r = u_id usr then r\<lparr>u_confirmed := True\<rparr> else r) db))"

text \<open>
  \<^verbatim>\<open>update_password\<close> (lines 117-121): an \<^verbatim>\<open>UPDATE ... RETURNING\<close> of the rows with the
  email, the commit, then \<^verbatim>\<open>scalar_one()\<close>, which raises \<^verbatim>\<open>NoResultFound\<close> when no row was
  updated and \<^verbatim>\<open>MultipleResultsFound\<close> when several were.
\<close>

definition update_password :: "user list \<Rightarrow> string \<Rightarrow> string \<Rightarrow> (exn + user) \<times> user list" where
  "update_password db email hashed_password =
     (let db' = map (\<lambda>r. if u_email r = email then r\<lparr>u_hashed_password := hashed_password\<rparr> else r) db
      in case filter (\<lambda>r. u_email r = email) db' of
           [] \<Rightarrow> (Inl NoResultFound, db')
         | [r] \<Rightarrow> (Inr r, db')
         | r # r' # rs \<Rightarrow> (Inl MultipleResultsFound, db'))"

section \<open>The session of the contact repository\<close>

text \<open>
  \<^verbatim>\<open>self.db\<close> is an SQLAlchemy session. Its state is the committed table (\<open>rows\<close>), the
  objects added and not yet inserted (\<open>pending\<close>), and the loaded objects whose attributes
  have been set and not yet written (\<open>dirty\<close>, at most one per primary key).

  The constraints of the table are declared in \<^verbatim>\<open>src/database/models.py\<close>, which is not
  among the sources: they are the parameter \<open>constraints\<close>, true of a table that satisfies
  them. \<^verbatim>\<open>commit()\<close> flushes the pending and dirty objects in one transaction; when the
  resulting table violates a constraint it raises \<^verbatim>\<open>IntegrityError\<close> and nothing is
  written. \<^verbatim>\<open>rollback()\<close> drops the pending objects and the unwritten changes.
\<close>

record session =
  rows :: "contact list"
  pending :: "contact list"
  dirty :: "contact list"

definition db_add :: "session \<Rightarrow> contact \<Rightarrow> session" where
  "db_add s c = s\<lparr>pending := pending s @ [c]\<rparr>"

definition db_set_dirty :: "session \<Rightarrow> contact \<Rightarrow> session" where
  "db_set_dirty s c = s\<lparr>dirty := c # filter (\<lambda>d. c_id d \<noteq> c_id c) (dirty s)\<rparr>"

definition flushed :: "session \<Rightarrow> contact list" where
  "flushed s =
     map (\<lambda>r. case find (\<lambda>d. c_id d = c_id r) (dirty s) of None \<Rightarrow> r | Some d \<Rightarrow> d) (rows s)
       @ pending s"

definition db_commit :: "(contact list \<Rightarrow> bool) \<Rightarrow> session \<Rightarrow> exn + session" where
  "db_commit constraints s =
     (if constraints (flushed s) then Inr \<lparr>rows = flushed s, pending = [], dirty = []\<rparr>
      else Inl IntegrityError)"

definition db_rollback :: "session \<Rightarrow> session" where
  "db_rollback s = s\<lparr>pending := [], dirty := []\<rparr>"

section \<open>ContactRepository: create and update\<close>

text \<open>
  \<^verbatim>\<open>ContactCreate\<close> and \<^verbatim>\<open>ContactUpdate\<close> are declared in \<^verbatim>\<open>src/schemas.py\<close>, which is not
  among the sources; the fields are the ones the tests pass
  (\<^verbatim>\<open>tests/test_contact_repository_unit.py\<close>, lines 63-70 and 94-101). A field is
  \<open>None\<close> when the request did not set it, \<open>Some v\<close> when it set it to \<open>v\<close>, where \<open>v\<close> may be
  \<open>None\<close> for an explicit null.
\<close>

record contact_data =
  d_first_name :: "string option option"
  d_last_name :: "string option option"
  d_email :: "string option option"
  d_phone :: "string option option"
  d_birthday :: "date option option"
  d_extra_info :: "string option option"

text \<open>
  \<^verbatim>\<open>model_dump(exclude_unset=True)\<close> and \<^verbatim>\<open>dict(exclude_unset=True)\<close>: the dictionary of the
  fields that were set, as the list of its items in the order of the fields.
\<close>

datatype item =
    First_name "string option"
  | Last_name "string option"
  | Email "string option"
  | Phone "string option"
  | Birthday "date option"
  | Extra_info "string option"

definition model_dump :: "contact_data \<Rightarrow> item list" where
  "model_dump d =
     (case d_first_name d of None \<Rightarrow> [] | Some v \<Rightarrow> [First_name v])
     @ (case d_last_name d of None \<Rightarrow> [] | Some v \<Rightarrow> [Last_name v])
     @ (case d_email d of None \<Rightarrow> [] | Some v \<Rightarrow> [Email v])
     @ (case d_phone d of None \<Rightarrow> [] | Some v \<Rightarrow> [Phone v])
     @ (case d_birthday d of None \<Rightarrow> [] | Some v \<Rightarrow> [Birthday v])
     @ (case d_extra_info d of None \<Rightarrow> [] | Some v \<Rightarrow> [Extra_info v])"

fun setattr :: "contact \<Rightarrow> item \<Rightarrow> contact" where
  "setattr c (First_name v) = c\<lparr>c_first_name := v\<rparr>"
| "setattr c (Last_name v) = c\<lparr>c_last_name := v\<rparr>"
| "setattr c (Email v) = c\<lparr>c_email := v\<rparr>"
| "setattr c (Phone v) = c\<lparr>c_phone := v\<rparr>"
| "setattr c (Birthday v) = c\<lparr>c_birthday := v\<rparr>"
| "setattr c (Extra_info v) = c\<lparr>c_extra_info := v\<rparr>"

text \<open>The loop \<^verbatim>\<open>for key, value in items: setattr(contact, key, value)\<close>.\<close>

fun setattrs :: "contact \<Rightarrow> item list \<Rightarrow> contact" where
  "setattrs c [] = c"
| "setattrs c (kv # kvs) = setattrs (setattr c kv) kvs"

text \<open>
  \<^verbatim>\<open>create_contact\<close> (\<^verbatim>\<open>src/repository/contacts.py\<close>, lines 54-74):
  \<^verbatim>\<open>
    new_contact = Contact(**contact_data.model_dump(exclude_unset=True), user_id=user.id)
    self.db.add(new_contact)
    try:
        await self.db.commit()
        await self.db.refresh(new_contact)
        return new_contact
    except IntegrityError as e:
        await self.db.rollback()
        return None
  \<close>
  The columns that are not set are \<^verbatim>\<open>NULL\<close>. \<open>new_id\<close> is the primary key the database gives
  the row when it is inserted. The function returns its result and the session.
\<close>

definition new_contact :: "int \<Rightarrow> contact_data \<Rightarrow> user \<Rightarrow> contact" where
  "new_contact new_id data usr =
     setattrs \<lparr>c_id = new_id, c_user_id = u_id usr, c_first_name = None, c_last_name = None,
         c_email = None, c_phone = None, c_birthday = None, c_extra_info = None\<rparr>
       (model_dump data)"

definition create_contact ::
  "(contact list \<Rightarrow> bool) \<Rightarrow> session \<Rightarrow> int \<Rightarrow> contact_data \<Rightarrow> user \<Rightarrow> contact option \<times> session"
where
  "create_contact constraints s new_id data usr =
     (let s1 = db_add s (new_contact new_id data usr) in
      case db_commit constraints s1 of
        Inr s2 \<Rightarrow> (Some (new_contact new_id data usr), s2)
      | Inl e \<Rightarrow> (None, db_rollback s1))"

text \<open>
  \<^verbatim>\<open>update_contact\<close> (lines 76-100):
  \<^verbatim>\<open>
    contact = await self.get_contact(contact_id, user)
    if contact:
        for key, value in contact_data.dict(exclude_unset=True).items():
            setattr(contact, key, value)
        try:
            await self.db.commit()
            await self.db.refresh(contact)
        except IntegrityError as e:
            await self.db.rollback()
            return None
    return contact
  \<close>
\<close>

definition update_contact ::
  "(contact list \<Rightarrow> bool) \<Rightarrow> session \<Rightarrow> int \<Rightarrow> contact_data \<Rightarrow> user
    \<Rightarrow> (exn + contact option) \<times> session"
where
  "update_contact constraints s contact_id data usr =
     (case get_contact (rows s) contact_id usr of
        Inl e \<Rightarrow> (Inl e, s)
      | Inr None \<Rightarrow> (Inr None, s)
      | Inr (Some c) \<Rightarrow>
          (let c' = setattrs c (model_dump data);
               s1 = db_set_dirty s c' in
           case db_commit constraints s1 of
             Inr s2 \<Rightarrow> (Inr (Some c'), s2)
           | Inl e \<Rightarrow> (Inr None, db_rollback s1)))"

text \<open>
  What the specification asks of a partial update, written from its words: a field
  present in the payload takes the payload's value, a field absent from it keeps its
  value, and so do the id and the owner.
\<close>

definition partial_replace :: "contact_data \<Rightarrow> contact \<Rightarrow> contact" where
  "partial_replace d c =
     \<lparr>c_id = c_id c, c_user_id = c_user_id c,
      c_first_name = (case d_first_name d of None \<Rightarrow> c_first_name c | Some v \<Rightarrow> v),
      c_last_name = (case d_last_name d of None \<Rightarrow> c_last_name c | Some v \<Rightarrow> v),
      c_email = (case d_email d of None \<Rightarrow> c_email c | Some v \<Rightarrow> v),
      c_phone = (case d_phone d of None \<Rightarrow> c_phone c | Some v \<Rightarrow> v),
      c_birthday = (case d_birthday d of None \<Rightarrow> c_birthday c | Some v \<Rightarrow> v),
      c_extra_info = (case d_extra_info d of None \<Rightarrow> c_extra_info c | Some v \<Rightarrow> v)\<rparr>"

section \<open>Birthdays\<close>

text \<open>
  The calendar of Python's \<^verbatim>\<open>datetime\<close>: \<open>add_days d n\<close> is \<^verbatim>\<open>d + timedelta(days=n)\<close> on the
  date part. (Python raises \<^verbatim>\<open>OverflowError\<close> past the year 9999; the clock of the server
  is far from it.)
\<close>

definition is_leap :: "int \<Rightarrow> bool" where
  "is_leap y = ((y mod 4 = 0 \<and> y mod 100 \<noteq> 0) \<or> y mod 400 = 0)"

definition days_in_month :: "int \<Rightarrow> int \<Rightarrow> int" where
  "days_in_month y m =
     (if m = 2 then (if is_leap y then 29 else 28)
      else if m = 4 \<or> m = 6 \<or> m = 9 \<or> m = 11 then 30 else 31)"

definition first_of_next :: "date \<Rightarrow> date" where
  "first_of_next d =
     (if month d < 12 then d\<lparr>month := month d + 1, day := 1\<rparr>
      else \<lparr>year = year d + 1, month = 1, day = 1\<rparr>)"

definition next_day :: "date \<Rightarrow> date" where
  "next_day d =
     (if day d < days_in_month (year d) (month d) then d\<lparr>day := day d + 1\<rparr>
      else first_of_next d)"

fun add_days :: "date \<Rightarrow> nat \<Rightarrow> date" where
  "add_days d 0 = d"
| "add_days d (Suc n) = add_days (next_day d) n"

text \<open>
  \<^verbatim>\<open>get_contacts_birthday_soon\<close> (\<^verbatim>\<open>src/repository/contacts.py\<close>, lines 143-175):
  \<^verbatim>\<open>
    today = datetime.today()
    seven_days_later = today + timedelta(days=7)
    stmt = select(Contact).where(Contact.user_id == user.id).filter(
        or_(and_(extract('month', Contact.birthday) == today.month,
                 extract('day', Contact.birthday) >= today.day),
            and_(extract('month', Contact.birthday) == seven_days_later.month,
                 extract('day', Contact.birthday) <= seven_days_later.day)))
  \<close>
  The clock is the parameter \<open>today\<close>. A row whose birthday is \<^verbatim>\<open>NULL\<close> is not selected.
  (\<^verbatim>\<open>scalars().all()\<close> is a list, never \<^verbatim>\<open>None\<close>: the test of line 172 is never true.)
\<close>

definition birthday_soon :: "date \<Rightarrow> date \<Rightarrow> bool" where
  "birthday_soon today b =
     (let seven_days_later = add_days today 7 in
      (month b = month today \<and> day today \<le> day b)
      \<or> (month b = month seven_days_later \<and> day b \<le> day seven_days_later))"

definition get_contacts_birthday_soon :: "contact list \<Rightarrow> user \<Rightarrow> date \<Rightarrow> contact list" where
  "get_contacts_birthday_soon tbl usr today =
     filter (\<lambda>c. c_user_id c = u_id usr
               \<and> (case c_birthday c of None \<Rightarrow> False | Some b \<Rightarrow> birthday_soon today b)) tbl"

text \<open>
  What the specification and the docstring (``birthdays are within the next 7 days'') ask,
  written from their words: the month and day of the birthday are the month and day of
  one of the days \<open>today\<close>, \<open>today + 1\<close>, ..., \<open>today + horizon\<close>.
\<close>

definition spec_birthday_within :: "date \<Rightarrow> nat \<Rightarrow> date \<Rightarrow> bool" where
  "spec_birthday_within today horizon b =
     list_ex (\<lambda>k. month (add_days today k) = month b \<and> day (add_days today k) = day b)
       [0..<Suc horizon]"

section \<open>Tokens\<close>

text \<open>
  \<^verbatim>\<open>jwt.encode\<close> and \<^verbatim>\<open>jwt.decode\<close> are python-jose's, a library outside the repository.
  The model keeps what the code relies on.

  The claims are the ones this program writes: \<^verbatim>\<open>sub\<close>, \<^verbatim>\<open>exp\<close> and \<^verbatim>\<open>iat\<close>. A field is \<open>None\<close>
  when the dictionary has no such key. \<^verbatim>\<open>exp\<close> and \<^verbatim>\<open>iat\<close> are seconds since the epoch
  (\<^verbatim>\<open>jwt.encode\<close> turns a \<^verbatim>\<open>datetime\<close> into them). \<^verbatim>\<open>sub\<close> is a JSON string or another JSON
  value, for which \<open>JNull\<close> stands.

  A token string that splits into a header, a payload and a signature is \<open>Compact\<close>, with
  the header's \<^verbatim>\<open>alg\<close>, the payload (\<open>None\<close> when it is not a JSON object) and the signature;
  any other string is \<open>Unparseable\<close>. The signing primitive (HMAC for \<^verbatim>\<open>HS256\<close>) is the
  parameter \<open>sign\<close>, of the key, the algorithm and the payload.
\<close>

datatype jval = JNull | JStr string

record claims =
  cl_sub :: "jval option"
  cl_exp :: "int option"
  cl_iat :: "int option"

datatype 'sig token = Unparseable string | Compact string "claims option" 'sig

type_synonym 'sig signer = "string \<Rightarrow> string \<Rightarrow> claims option \<Rightarrow> 'sig"

definition jwt_encode :: "'sig signer \<Rightarrow> claims \<Rightarrow> string \<Rightarrow> string \<Rightarrow> 'sig token" where
  "jwt_encode sign cl key algorithm = Compact algorithm (Some cl) (sign key algorithm (Some cl))"

text \<open>
  \<^verbatim>\<open>jwt.decode(token, key, algorithms=[...])\<close> with the default options, at the time \<open>now\<close>:
  the algorithm of the header must be allowed, the signature must be the key's, the
  payload must be a JSON object, \<^verbatim>\<open>exp\<close> (when present) must not be before \<open>now\<close>, and
  \<^verbatim>\<open>sub\<close> (when present) must be a string. \<^verbatim>\<open>sub\<close> is not required. Every failure is a
  \<^verbatim>\<open>JWTError\<close>.
\<close>

definition validate_claims :: "claims \<Rightarrow> int \<Rightarrow> exn + claims" where
  "validate_claims cl now =
     (case cl_exp cl of
        Some e \<Rightarrow> if e < now then Inl (JWTError Expired_signature) else
          (if cl_sub cl = Some JNull then Inl (JWTError Claims_error) else Inr cl)
      | None \<Rightarrow> if cl_sub cl = Some JNull then Inl (JWTError Claims_error) else Inr cl)"

fun jwt_decode :: "'sig signer \<Rightarrow> 'sig token \<Rightarrow> string \<Rightarrow> string list \<Rightarrow> int \<Rightarrow> exn + claims" where
  "jwt_decode sign (Unparseable s) key algorithms now = Inl (JWTError Bad_structure)"
| "jwt_decode sign (Compact alg payload sg) key algorithms now =
     (if alg \<notin> set algorithms then Inl (JWTError Bad_algorithm)
      else if sg \<noteq> sign key alg payload then Inl (JWTError Bad_signature)
      else case payload of
             None \<Rightarrow> Inl (JWTError Bad_payload)
           | Some cl \<Rightarrow> validate_claims cl now)"

text \<open>The settings of \<^verbatim>\<open>src/conf/config.py\<close> that the tokens use.\<close>

record config =
  JWT_SECRET :: string
  JWT_ALGORITHM :: string
  JWT_EXPIRATION_SECONDS :: int

text \<open>
  \<^verbatim>\<open>create_access_token\<close> (\<^verbatim>\<open>src/services/auth.py\<close>, lines 22-32). \<^verbatim>\<open>if expires_delta:\<close> is
  false for \<^verbatim>\<open>None\<close> and for \<^verbatim>\<open>0\<close>.
\<close>

definition create_access_token ::
  "'sig signer \<Rightarrow> config \<Rightarrow> claims \<Rightarrow> int option \<Rightarrow> int \<Rightarrow> 'sig token" where
  "create_access_token sign cfg data expires_delta now =
     (let expire = (case expires_delta of
                      Some d \<Rightarrow> if d \<noteq> 0 then now + d else now + JWT_EXPIRATION_SECONDS cfg
                    | None \<Rightarrow> now + JWT_EXPIRATION_SECONDS cfg);
          to_encode = data\<lparr>cl_exp := Some expire\<rparr>
      in jwt_encode sign to_encode (JWT_SECRET cfg) (JWT_ALGORITHM cfg))"

text \<open>\<^verbatim>\<open>create_email_token\<close> (lines 81-86): seven days.\<close>

definition create_email_token :: "'sig signer \<Rightarrow> config \<Rightarrow> claims \<Rightarrow> int \<Rightarrow> 'sig token" where
  "create_email_token sign cfg data now =
     (let expire = now + 7 * 86400;
          to_encode = data\<lparr>cl_iat := Some now, cl_exp := Some expire\<rparr>
      in jwt_encode sign to_encode (JWT_SECRET cfg) (JWT_ALGORITHM cfg))"

text \<open>
  \<^verbatim>\<open>create_reset_token\<close> (lines 103-110): \<^verbatim>\<open>expire = datetime.utcnow() + timedelta(hours=1)\<close>,
  the payload is \<^verbatim>\<open>{"sub": email, "exp": expire}\<close>.
\<close>

definition create_reset_token :: "'sig signer \<Rightarrow> config \<Rightarrow> string \<Rightarrow> int \<Rightarrow> 'sig token" where
  "create_reset_token sign cfg email now =
     (let expire = now + 3600;
          payload = \<lparr>cl_sub = Some (JStr email), cl_exp = Some expire, cl_iat = None\<rparr>
      in jwt_encode sign payload (JWT_SECRET cfg) (JWT_ALGORITHM cfg))"

text \<open>
  \<^verbatim>\<open>decode_reset_token\<close> (lines 113-115): the exception of \<^verbatim>\<open>jwt.decode\<close> is not caught here;
  \<^verbatim>\<open>payload.get("sub")\<close> is \<^verbatim>\<open>None\<close> when the key is missing.
\<close>

definition decode_reset_token :: "'sig signer \<Rightarrow> config \<Rightarrow> 'sig token \<Rightarrow> int \<Rightarrow> exn + jval option" where
  "decode_reset_token sign cfg token now =
     (case jwt_decode sign token (JWT_SECRET cfg) [JWT_ALGORITHM cfg] now of
        Inl e \<Rightarrow> Inl e
      | Inr payload \<Rightarrow> Inr (cl_sub payload))"

text \<open>
  \<^verbatim>\<open>reset_password_form\<close> (\<^verbatim>\<open>src/api/auth.py\<close>, lines 128-137): every exception of
  \<^verbatim>\<open>decode_reset_token\<close> becomes the response 400 ``Invalid or expired token''; otherwise the
  form is rendered with the token.
\<close>

definition reset_password_form :: "'sig signer \<Rightarrow> config \<Rightarrow> 'sig token \<Rightarrow> int \<Rightarrow> exn + 'sig token" where
  "reset_password_form sign cfg token now =
     (case decode_reset_token sign cfg token now of
        Inl e \<Rightarrow> Inl (HTTPException 400 Invalid_or_expired_token)
      | Inr email \<Rightarrow> Inr token)"

section \<open>The cache\<close>

text \<open>
  \<^verbatim>\<open>redis_client\<close> (\<^verbatim>\<open>src/cache/redis_client.py\<close>, not among the sources) is a Redis client.
  The server's state as the code sees it: the entries, each with the time at which it
  expires, and whether a \<^verbatim>\<open>GET\<close> and a \<^verbatim>\<open>SET\<close> reach the server; a command that does not
  raises \<^verbatim>\<open>RedisError\<close>. \<^verbatim>\<open>set(key, value, ex=n)\<close> at the time \<open>now\<close> makes the entry
  expire at \<open>now + n\<close>.
\<close>

record redis =
  entries :: "(string \<times> string \<times> int) list"
  get_up :: bool
  set_up :: bool

definition redis_get :: "redis \<Rightarrow> string \<Rightarrow> int \<Rightarrow> exn + string option" where
  "redis_get rc key now =
     (if \<not> get_up rc then Inl RedisError
      else case map_of (entries rc) key of
             None \<Rightarrow> Inr None
           | Some (v, expires_at) \<Rightarrow> if now < expires_at then Inr (Some v) else Inr None)"

definition redis_set :: "redis \<Rightarrow> string \<Rightarrow> string \<Rightarrow> int \<Rightarrow> int \<Rightarrow> (exn + unit) \<times> redis" where
  "redis_set rc key v ex now =
     (if \<not> set_up rc then (Inl RedisError, rc)
      else (Inr (), rc\<lparr>entries := AList.update key (v, now + ex) (entries rc)\<rparr>))"

section \<open>Resolving the bearer token\<close>

text \<open>
  Modelled from the spec: \<^verbatim>\<open>src/services/users.py\<close> (\<^verbatim>\<open>UserService\<close>) is not among the
  sources. The specification's \<^verbatim>\<open>resolveBearer\<close> and \<^verbatim>\<open>login\<close> look the user up in the
  directory by username: \<^verbatim>\<open>UserService.get_user_by_username\<close> is the repository's query.
\<close>

definition service_get_user_by_username :: "user list \<Rightarrow> string \<Rightarrow> exn + user option" where
  "service_get_user_by_username db username = get_user_by_username db username"

text \<open>
  \<^verbatim>\<open>get_current_user\<close> (\<^verbatim>\<open>src/services/auth.py\<close>, lines 35-73). The pydantic model \<^verbatim>\<open>User\<close>
  is declared in \<^verbatim>\<open>src/schemas.py\<close>, which is not among the sources: it is the type \<open>'s\<close>,
  \<open>loads\<close> is \<^verbatim>\<open>User(**json.loads(cached_user))\<close>, which raises on a string that is not a
  user, and \<open>dumps\<close> is \<^verbatim>\<open>json.dumps(User.model_validate(user).model_dump())\<close>.

  The function returns the cached model on a hit and the row of the directory on a
  miss, as the source does, and the state of the cache. \<open>from_directory\<close> is its second
  half (lines 63-73), which every path that has not returned from the cache reaches.
  \<^item> \<^verbatim>\<open>payload["sub"]\<close> raises \<^verbatim>\<open>KeyError\<close> when the payload has no \<^verbatim>\<open>sub\<close>; the handler
    catches \<^verbatim>\<open>JWTError\<close> only.
  \<^item> \<^verbatim>\<open>if cached_user:\<close> is false for \<^verbatim>\<open>None\<close> and for the empty string.
  \<^item> \<^verbatim>\<open>except RedisError: pass\<close> around the \<^verbatim>\<open>get\<close> and around the \<^verbatim>\<open>set\<close>.
\<close>

datatype 's current_user = Cached 's | Row user

definition credentials_exception :: exn where
  "credentials_exception = HTTPException 401 Could_not_validate_credentials"

definition from_directory ::
  "(user \<Rightarrow> string) \<Rightarrow> string \<Rightarrow> redis \<Rightarrow> user list \<Rightarrow> int \<Rightarrow> (exn + 's current_user) \<times> redis" where
  "from_directory dumps username rc db now =
     (case service_get_user_by_username db username of
        Inl e \<Rightarrow> (Inl e, rc)
      | Inr None \<Rightarrow> (Inl credentials_exception, rc)
      | Inr (Some usr) \<Rightarrow>
          (case redis_set rc (''user:'' @ username) (dumps usr) 3600 now of
             (Inl e, rc') \<Rightarrow> if e = RedisError then (Inr (Row usr), rc') else (Inl e, rc')
           | (Inr u, rc') \<Rightarrow> (Inr (Row usr), rc')))"

definition get_current_user ::
  "'sig signer \<Rightarrow> (string \<Rightarrow> exn + 's) \<Rightarrow> (user \<Rightarrow> string) \<Rightarrow> config \<Rightarrow> 'sig token \<Rightarrow> redis
    \<Rightarrow> user list \<Rightarrow> int \<Rightarrow> (exn + 's current_user) \<times> redis" where
  "get_current_user sign loads dumps cfg token rc db now =
     (case jwt_decode sign token (JWT_SECRET cfg) [JWT_ALGORITHM cfg] now of
        Inl e \<Rightarrow> (case e of JWTError f \<Rightarrow> (Inl credentials_exception, rc) | _ \<Rightarrow> (Inl e, rc))
      | Inr payload \<Rightarrow>
          (case cl_sub payload of
             None \<Rightarrow> (Inl (KeyError ''sub''), rc)
           | Some JNull \<Rightarrow> (Inl credentials_exception, rc)
           | Some (JStr username) \<Rightarrow>
               (case redis_get rc (''user:'' @ username) now of
                  Inl e \<Rightarrow>
                    if e = RedisError then from_directory dumps username rc db now
                    else (Inl e, rc)
                | Inr None \<Rightarrow> from_directory dumps username rc db now
                | Inr (Some cached_user) \<Rightarrow>
                    if cached_user \<noteq> [] then
                      (case loads cached_user of
                         Inl e \<Rightarrow> (Inl e, rc)
                       | Inr u \<Rightarrow> (Inr (Cached u), rc))
                    else from_directory dumps username rc db now)))"

section \<open>Login\<close>

text \<open>
  \<^verbatim>\<open>login_user\<close> (\<^verbatim>\<open>src/api/auth.py\<close>, lines 54-72). \<^verbatim>\<open>Hash().verify_password\<close>
  (\<^verbatim>\<open>src/services/hash.py\<close>, not among the sources) is the parameter \<open>verify_password\<close>, of
  the plain password and the stored hash.
\<close>

record 'sig token_response =
  access_token :: "'sig token"
  token_type :: string

definition login_user ::
  "(string \<Rightarrow> string \<Rightarrow> bool) \<Rightarrow> 'sig signer \<Rightarrow> config \<Rightarrow> user list \<Rightarrow> string \<Rightarrow> string \<Rightarrow> int
    \<Rightarrow> exn + 'sig token_response" where
  "login_user verify_password sign cfg db username password now =
     (case service_get_user_by_username db username of
        Inl e \<Rightarrow> Inl e
      | Inr None \<Rightarrow> Inl (HTTPException 401 Wrong_login_or_password)
      | Inr (Some usr) \<Rightarrow>
          if \<not> verify_password password (u_hashed_password usr)
          then Inl (HTTPException 401 Wrong_login_or_password)
          else if \<not> u_confirmed usr then Inl (HTTPException 401 Email_not_confirmed)
          else Inr \<lparr>access_token =
                      create_access_token sign cfg
                        \<lparr>cl_sub = Some (JStr (u_username usr)), cl_exp = None, cl_iat = None\<rparr>
                        None now,
                    token_type = ''bearer''\<rparr>)"

section \<open>Fixtures\<close>

definition alice :: user where
  "alice = \<lparr>u_id = 1, u_username = ''alice'', u_email = ''alice@example.com'',
     u_hashed_password = ''$2b$12$aaaa'', u_role = USER, u_confirmed = True, u_avatar = None\<rparr>"

definition bob :: user where
  "bob = \<lparr>u_id = 2, u_username = ''bob'', u_email = ''bob@example.com'',
     u_hashed_password = ''$2b$12$bbbb'', u_role = USER, u_confirmed = False, u_avatar = None\<rparr>"

definition jane :: contact where
  "jane = \<lparr>c_id = 1, c_user_id = 2, c_first_name = Some ''Jane'', c_last_name = Some ''Smith'',
     c_email = Some ''jane@example.com'', c_phone = Some ''0987654321'',
     c_birthday = Some \<lparr>year = 1990, month = 5, day = 20\<rparr>, c_extra_info = Some ''Old info''\<rparr>"

definition john :: contact where
  "john = \<lparr>c_id = 2, c_user_id = 1, c_first_name = Some ''John'', c_last_name = Some ''Doe'',
     c_email = Some ''john@example.com'', c_phone = Some ''1234567890'',
     c_birthday = Some \<lparr>year = 2000, month = 1, day = 12\<rparr>, c_extra_info = None\<rparr>"

definition book :: session where
  "book = \<lparr>rows = [jane, john], pending = [], dirty = []\<rparr>"

text \<open>A constraint a table can have: no two rows with the same email.\<close>

definition unique_email :: "contact list \<Rightarrow> bool" where
  "unique_email tbl = distinct (map c_email tbl)"

definition only_first_name :: contact_data where
  "only_first_name = \<lparr>d_first_name = Some (Some ''Janet''), d_last_name = None, d_email = None,
     d_phone = None, d_birthday = None, d_extra_info = None\<rparr>"

definition johns_email :: contact_data where
  "johns_email = \<lparr>d_first_name = Some (Some ''Johnny''), d_last_name = None,
     d_email = Some (Some ''john@example.com''), d_phone = None, d_birthday = None,
     d_extra_info = None\<rparr>"

text \<open>A signing primitive that keeps its arguments, and the settings of a deployment.\<close>

definition hs256 :: "(string \<times> string \<times> claims option) signer" where
  "hs256 key alg payload = (key, alg, payload)"

definition settings :: config where
  "settings = \<lparr>JWT_SECRET = ''secret'', JWT_ALGORITHM = ''HS256'', JWT_EXPIRATION_SECONDS = 3600\<rparr>"

definition check_password :: "string \<Rightarrow> string \<Rightarrow> bool" where
  "check_password password hashed = (hashed = ''$2b$12$'' @ password)"

text \<open>A serialisation of the cached user for the examples: the username.\<close>

definition dumps_name :: "user \<Rightarrow> string" where
  "dumps_name usr = u_username usr"

definition loads_name :: "string \<Rightarrow> exn + user" where
  "loads_name s = (if s = ''alice'' then Inr alice else Inl ValidationError)"

definition cache_empty :: redis where
  "cache_empty = \<lparr>entries = [], get_up = True, set_up = True\<rparr>"

definition cache_down :: redis where
  "cache_down = \<lparr>entries = [], get_up = False, set_up = False\<rparr>"

definition cache_read_only :: redis where
  "cache_read_only = \<lparr>entries = [], get_up = True, set_up = False\<rparr>"

definition cache_alice :: redis where
  "cache_alice = \<lparr>entries = [(''user:alice'', ''alice'', 5100)], get_up = True, set_up = True\<rparr>"

definition alice_claims :: claims where
  "alice_claims = \<lparr>cl_sub = Some (JStr ''alice''), cl_exp = None, cl_iat = None\<rparr>"

definition marta :: contact where
  "marta = \<lparr>c_id = 3, c_user_id = 1, c_first_name = Some ''Marta'', c_last_name = None,
     c_email = Some ''marta@example.com'', c_phone = None,
     c_birthday = Some \<lparr>year = 1990, month = 3, day = 31\<rparr>, c_extra_info = None\<rparr>"

definition ivan :: contact where
  "ivan = \<lparr>c_id = 4, c_user_id = 1, c_first_name = Some ''Ivan'', c_last_name = None,
     c_email = Some ''ivan@example.com'', c_phone = None,
     c_birthday = Some \<lparr>year = 1985, month = 1, day = 2\<rparr>, c_extra_info = None\<rparr>"

section \<open>Properties\<close>

lemma scalar_one_or_none_Nil_iff: "scalar_one_or_none xs = Inr None \<longleftrightarrow> xs = []"
  by (cases xs rule: scalar_one_or_none.cases) simp_all

lemma filter_key_other_owner:
  assumes "distinct (map c_id tbl)" and "c \<in> set tbl" and "c_user_id c \<noteq> uid"
  shows "filter (\<lambda>r. c_id r = c_id c \<and> c_user_id r = uid) tbl = []"
proof -
  have "r \<in> set tbl \<Longrightarrow> c_id r = c_id c \<Longrightarrow> r = c" for r
    using assms(1,2) by (meson distinct_map inj_onD)
  with assms(3) show ?thesis
    by (auto simp: filter_empty_conv)
qed

lemma get_contact_absent_id:
  "contact_id \<notin> c_id ` set tbl \<Longrightarrow> get_contact tbl contact_id usr = Inr None"
  by (auto simp: get_contact_def scalar_one_or_none_Nil_iff filter_empty_conv)

text \<open>
  Claim C1. When the contact with a given id is owned by user \<open>B\<close>, and \<open>A\<close> is another
  user, \<open>get_contact\<close> for \<open>A\<close> returns \<^verbatim>\<open>None\<close> (not found): the same result as on the
  table from which every row with that id has been removed. The contact's id is the
  table's primary key, so the ids of the rows are distinct.
\<close>

theorem get_contact_wrong_owner_not_found:
  assumes "distinct (map c_id tbl)"
    and "c \<in> set tbl"
    and "c_user_id c = u_id B"
    and "u_id A \<noteq> u_id B"
  shows "get_contact tbl (c_id c) A = Inr None
    \<and> get_contact tbl (c_id c) A = get_contact (filter (\<lambda>r. c_id r \<noteq> c_id c) tbl) (c_id c) A"
proof -
  from assms(3,4) have other: "c_user_id c \<noteq> u_id A"
    by simp
  have found: "get_contact tbl (c_id c) A = Inr None"
    unfolding get_contact_def
    by (simp add: filter_key_other_owner [OF assms(1,2) other])
  have "c_id c \<notin> c_id ` set (filter (\<lambda>r. c_id r \<noteq> c_id c) tbl)"
    by auto
  then have "get_contact (filter (\<lambda>r. c_id r \<noteq> c_id c) tbl) (c_id c) A = Inr None"
    by (rule get_contact_absent_id)
  with found show ?thesis
    by simp
qed

theorem get_contact_wrong_owner_not_found_witness:
  "distinct (map c_id [jane, john]) \<and> jane \<in> set [jane, john] \<and> c_user_id jane = u_id bob
    \<and> u_id alice \<noteq> u_id bob
    \<and> get_contact [jane, john] (c_id jane) alice = Inr None
    \<and> get_contact [jane, john] (c_id jane) alice
        = get_contact (filter (\<lambda>r. c_id r \<noteq> c_id jane) [jane, john]) (c_id jane) alice
    \<and> get_contact [jane, john] (c_id jane) bob = Inr (Some jane)"
proof -
  have h1: "distinct (map c_id [jane, john])"
    by (simp add: jane_def john_def)
  have h2: "jane \<in> set [jane, john]"
    by simp
  have h3: "c_user_id jane = u_id bob"
    by (simp add: jane_def bob_def)
  have h4: "u_id alice \<noteq> u_id bob"
    by (simp add: alice_def bob_def)
  have own: "get_contact [jane, john] (c_id jane) bob = Inr (Some jane)"
    by (simp add: get_contact_def jane_def john_def bob_def)
  note res = get_contact_wrong_owner_not_found [OF h1 h2 h3 h4]
  from res h1 h2 h3 h4 own show ?thesis
    by blast
qed

subsection \<open>Creating and updating contacts\<close>

lemma setattrs_append: "setattrs c (xs @ ys) = setattrs (setattrs c xs) ys"
  by (induction xs arbitrary: c) simp_all

lemma setattrs_model_dump: "setattrs c (model_dump d) = partial_replace d c"
  by (simp add: model_dump_def partial_replace_def setattrs_append split: option.splits)

lemma flushed_clean_add:
  "dirty s = [] \<Longrightarrow> flushed (db_add s c) = rows s @ pending s @ [c]"
  by (simp add: flushed_def db_add_def)

lemma flushed_clean_dirty:
  "pending s = [] \<Longrightarrow> dirty s = [] \<Longrightarrow>
   flushed (db_set_dirty s c) = map (\<lambda>r. if c_id r = c_id c then c else r) (rows s)"
  by (auto simp: flushed_def db_set_dirty_def)

lemma rollback_add_clean:
  "pending s = [] \<Longrightarrow> dirty s = [] \<Longrightarrow> db_rollback (db_add s c) = s"
  by (simp add: db_rollback_def db_add_def)

lemma rollback_dirty_clean:
  "pending s = [] \<Longrightarrow> dirty s = [] \<Longrightarrow> db_rollback (db_set_dirty s c) = s"
  by (simp add: db_rollback_def db_set_dirty_def)

lemma scalar_one_or_none_Some_iff: "scalar_one_or_none xs = Inr (Some x) \<longleftrightarrow> xs = [x]"
  by (cases xs rule: scalar_one_or_none.cases) simp_all

lemma get_contact_SomeD:
  assumes "get_contact tbl cid usr = Inr (Some c)"
  shows "c \<in> set tbl \<and> c_id c = cid \<and> c_user_id c = u_id usr"
proof -
  from assms have "filter (\<lambda>c. c_id c = cid \<and> c_user_id c = u_id usr) tbl = [c]"
    by (simp add: get_contact_def scalar_one_or_none_Some_iff)
  then have "c \<in> set (filter (\<lambda>c. c_id c = cid \<and> c_user_id c = u_id usr) tbl)"
    by simp
  then show ?thesis
    by simp
qed

lemma partial_replace_id: "c_id (partial_replace d c) = c_id c"
  by (simp add: partial_replace_def)

text \<open>
  Claim C9. In a session with nothing pending, when the table with the new row added
  violates a storage constraint, \<open>create_contact\<close> returns \<^verbatim>\<open>None\<close> (the failure the
  docstring announces: ``None if creation fails'') and the session is the one before the
  call: the table is unchanged and the new row is neither stored nor left pending.
\<close>

theorem create_contact_conflict_rolls_back:
  assumes "pending s = []" and "dirty s = []"
    and "\<not> constraints (rows s @ [new_contact new_id data usr])"
  shows "create_contact constraints s new_id data usr = (None, s)"
  using assms
  by (simp add: create_contact_def Let_def db_commit_def flushed_clean_add rollback_add_clean)

theorem create_contact_conflict_rolls_back_witness:
  "pending book = [] \<and> dirty book = []
   \<and> \<not> unique_email (rows book @ [new_contact 3 johns_email bob])
   \<and> create_contact unique_email book 3 johns_email bob = (None, book)
   \<and> unique_email (rows book @ [new_contact 3 only_first_name bob])
   \<and> create_contact unique_email book 3 only_first_name bob
       = (Some (new_contact 3 only_first_name bob),
          \<lparr>rows = [jane, john, new_contact 3 only_first_name bob], pending = [], dirty = []\<rparr>)"
proof -
  have h1: "pending book = []" and h2: "dirty book = []"
    by (simp_all add: book_def)
  have h3: "\<not> unique_email (rows book @ [new_contact 3 johns_email bob])"
    by (simp add: unique_email_def book_def new_contact_def model_dump_def johns_email_def
        jane_def john_def)
  have ok: "unique_email (rows book @ [new_contact 3 only_first_name bob])"
    by (simp add: unique_email_def book_def new_contact_def model_dump_def only_first_name_def
        jane_def john_def)
  have stored: "create_contact unique_email book 3 only_first_name bob
       = (Some (new_contact 3 only_first_name bob),
          \<lparr>rows = [jane, john, new_contact 3 only_first_name bob], pending = [], dirty = []\<rparr>)"
    using ok
    by (simp add: create_contact_def Let_def db_commit_def flushed_clean_add h1 h2)
       (simp add: book_def)
  note res = create_contact_conflict_rolls_back
    [where s = book and constraints = unique_email and new_id = 3 and data = johns_email
       and usr = bob, OF h1 h2 h3]
  from res h1 h2 h3 ok stored show ?thesis
    by blast
qed

text \<open>
  Claim C7. In a session with nothing pending, for a contact \<open>c\<close> that \<open>get_contact\<close> finds,
  \<open>update_contact\<close> computes \<open>partial_replace data c\<close>: the fields present in the payload
  take the payload's values, the other fields, the id and the owner keep theirs. When
  the constraints hold the row with the contact's id is replaced by it and every other
  row is kept; when they do not, the result is \<^verbatim>\<open>None\<close> and the session is unchanged. In
  particular a payload that sets only \<^verbatim>\<open>first_name\<close> changes no other field.
\<close>

theorem update_contact_partial_replace:
  assumes "pending s = []" and "dirty s = []"
    and "get_contact (rows s) contact_id usr = Inr (Some c)"
  shows "update_contact constraints s contact_id data usr =
      (if constraints (map (\<lambda>r. if c_id r = contact_id then partial_replace data c else r) (rows s))
       then (Inr (Some (partial_replace data c)),
             \<lparr>rows = map (\<lambda>r. if c_id r = contact_id then partial_replace data c else r) (rows s),
              pending = [], dirty = []\<rparr>)
       else (Inr None, s))
    \<and> partial_replace \<lparr>d_first_name = Some v, d_last_name = None, d_email = None,
          d_phone = None, d_birthday = None, d_extra_info = None\<rparr> c = c\<lparr>c_first_name := v\<rparr>
    \<and> c_id (partial_replace data c) = c_id c
    \<and> c_user_id (partial_replace data c) = c_user_id c"
proof -
  from assms(3) have cid: "c_id c = contact_id"
    by (simp add: get_contact_SomeD)
  have fl: "flushed (db_set_dirty s (partial_replace data c))
      = map (\<lambda>r. if c_id r = contact_id then partial_replace data c else r) (rows s)"
    by (simp add: flushed_clean_dirty [OF assms(1,2)] partial_replace_id cid)
  have "update_contact constraints s contact_id data usr =
      (if constraints (map (\<lambda>r. if c_id r = contact_id then partial_replace data c else r) (rows s))
       then (Inr (Some (partial_replace data c)),
             \<lparr>rows = map (\<lambda>r. if c_id r = contact_id then partial_replace data c else r) (rows s),
              pending = [], dirty = []\<rparr>)
       else (Inr None, s))"
    by (simp add: update_contact_def assms(3) Let_def setattrs_model_dump db_commit_def fl
        rollback_dirty_clean [OF assms(1,2)])
  moreover have "partial_replace \<lparr>d_first_name = Some v, d_last_name = None, d_email = None,
          d_phone = None, d_birthday = None, d_extra_info = None\<rparr> c = c\<lparr>c_first_name := v\<rparr>"
    by (simp add: partial_replace_def)
  moreover have "c_id (partial_replace data c) = c_id c"
    and "c_user_id (partial_replace data c) = c_user_id c"
    by (simp_all add: partial_replace_def)
  ultimately show ?thesis
    by simp
qed

theorem update_contact_partial_replace_witness:
  "pending book = [] \<and> dirty book = [] \<and> get_contact (rows book) 1 bob = Inr (Some jane)
   \<and> update_contact unique_email book 1 only_first_name bob
       = (Inr (Some (jane\<lparr>c_first_name := Some ''Janet''\<rparr>)),
          \<lparr>rows = [jane\<lparr>c_first_name := Some ''Janet''\<rparr>, john], pending = [], dirty = []\<rparr>)
   \<and> update_contact unique_email book 1 johns_email bob = (Inr None, book)"
proof -
  have h1: "pending book = []" and h2: "dirty book = []"
    by (simp_all add: book_def)
  have h3: "get_contact (rows book) 1 bob = Inr (Some jane)"
    by (simp add: get_contact_def book_def jane_def john_def bob_def)
  have p1: "partial_replace only_first_name jane = jane\<lparr>c_first_name := Some ''Janet''\<rparr>"
    by (simp add: partial_replace_def only_first_name_def)
  have ids: "c_id jane = 1" "c_id john = 2"
    by (simp_all add: jane_def john_def)
  have t1: "map (\<lambda>r. if c_id r = 1 then jane\<lparr>c_first_name := Some ''Janet''\<rparr> else r) (rows book)
      = [jane\<lparr>c_first_name := Some ''Janet''\<rparr>, john]"
    by (simp add: book_def ids)
  have c1: "unique_email [jane\<lparr>c_first_name := Some ''Janet''\<rparr>, john]"
    by (simp add: unique_email_def jane_def john_def)
  have c2: "\<not> unique_email
      (map (\<lambda>r. if c_id r = 1 then partial_replace johns_email jane else r) (rows book))"
    by (simp add: unique_email_def book_def partial_replace_def johns_email_def jane_def john_def)
  note res1 = conjunct1 [OF update_contact_partial_replace
      [where s = book and constraints = unique_email and data = only_first_name and v = None,
        OF h1 h2 h3]]
  note res2 = conjunct1 [OF update_contact_partial_replace
      [where s = book and constraints = unique_email and data = johns_email and v = None,
        OF h1 h2 h3]]
  have r1: "update_contact unique_email book 1 only_first_name bob
       = (Inr (Some (jane\<lparr>c_first_name := Some ''Janet''\<rparr>)),
          \<lparr>rows = [jane\<lparr>c_first_name := Some ''Janet''\<rparr>, john], pending = [], dirty = []\<rparr>)"
    using res1 [unfolded p1 t1] c1 by simp
  have r2: "update_contact unique_email book 1 johns_email bob = (Inr None, book)"
    using res2 c2 by simp
  from h1 h2 h3 r1 r2 show ?thesis
    by blast
qed

subsection \<open>Tokens\<close>

lemma jwt_decode_encode:
  "jwt_decode sign (jwt_encode sign cl key alg) key [alg] now = validate_claims cl now"
  by (simp add: jwt_encode_def)

lemma jwt_decode_error_kind:
  "jwt_decode sign token key algorithms now = Inl e \<Longrightarrow> \<exists>f. e = JWTError f"
  by (cases token) (auto simp: validate_claims_def split: if_splits option.splits)

lemma jwt_decode_sub_not_null:
  "jwt_decode sign token key algorithms now = Inr payload \<Longrightarrow> cl_sub payload \<noteq> Some JNull"
  by (cases token) (auto simp: validate_claims_def split: if_splits option.splits)

text \<open>
  Claim C2. A reset token issued for an email at the time \<open>t0\<close> expires at \<open>t0 + 3600\<close>.
  Decoded not later than that, it gives back the email. Decoded later,
  \<open>decode_reset_token\<close> raises the library's expiry error, which the route
  \<open>reset_password_form\<close> answers with 400 and the detail ``Invalid or expired token''.
\<close>

theorem reset_token_round_trip:
  "(now \<le> t0 + 3600 \<longrightarrow>
      decode_reset_token sign cfg (create_reset_token sign cfg email t0) now = Inr (Some (JStr email)))
   \<and> (t0 + 3600 < now \<longrightarrow>
      decode_reset_token sign cfg (create_reset_token sign cfg email t0) now
        = Inl (JWTError Expired_signature)
      \<and> reset_password_form sign cfg (create_reset_token sign cfg email t0) now
        = Inl (HTTPException 400 Invalid_or_expired_token))"
  by (simp add: reset_password_form_def decode_reset_token_def create_reset_token_def
      jwt_decode_encode validate_claims_def)

theorem reset_token_round_trip_witness:
  "decode_reset_token hs256 settings (create_reset_token hs256 settings ''alice@example.com'' 1000) 4600
     = Inr (Some (JStr ''alice@example.com''))
   \<and> decode_reset_token hs256 settings (create_reset_token hs256 settings ''alice@example.com'' 1000) 4601
     = Inl (JWTError Expired_signature)
   \<and> reset_password_form hs256 settings (create_reset_token hs256 settings ''alice@example.com'' 1000) 4601
     = Inl (HTTPException 400 Invalid_or_expired_token)"
  using reset_token_round_trip
      [where now = 4600 and ?t0.0 = 1000 and sign = hs256 and cfg = settings
        and email = "''alice@example.com''"]
    reset_token_round_trip
      [where now = 4601 and ?t0.0 = 1000 and sign = hs256 and cfg = settings
        and email = "''alice@example.com''"]
  by simp

subsection \<open>Resolving the bearer token\<close>

lemma get_current_user_decode_failure:
  "jwt_decode sign token (JWT_SECRET cfg) [JWT_ALGORITHM cfg] now = Inl e \<Longrightarrow>
   get_current_user sign loads dumps cfg token rc db now = (Inl credentials_exception, rc)"
  by (cases token) (auto simp: get_current_user_def validate_claims_def split: if_splits option.splits)

text \<open>
  Claim C3. The claim fails for a well-signed, unexpired token whose payload has no
  \<^verbatim>\<open>sub\<close>: \<^verbatim>\<open>jwt.decode\<close> accepts it, \<^verbatim>\<open>payload["sub"]\<close> raises \<^verbatim>\<open>KeyError\<close>, and the handler
  catches \<^verbatim>\<open>JWTError\<close> only, so \<open>get_current_user\<close> ends with \<^verbatim>\<open>KeyError\<close> and not with the
  401 response. (Every failure of \<^verbatim>\<open>jwt.decode\<close> itself does give the 401 response:
  \<open>get_current_user_decode_failure\<close>.)
\<close>

theorem get_current_user_missing_sub_key_error:
  "get_current_user sign loads dumps cfg
     (jwt_encode sign \<lparr>cl_sub = None, cl_exp = Some (now + 60), cl_iat = None\<rparr>
        (JWT_SECRET cfg) (JWT_ALGORITHM cfg)) rc db now
   = (Inl (KeyError ''sub''), rc)"
  by (simp add: get_current_user_def jwt_decode_encode validate_claims_def)

subsection \<open>Login\<close>

text \<open>
  Claim C4. When the user found by the username has \<open>confirmed = False\<close> and the password
  verifies, \<open>login_user\<close> fails with the 401 response ``email not confirmed''; and when
  \<open>login_user\<close> returns a token, the user exists, the password verifies and \<open>confirmed\<close> is
  true.
\<close>

theorem login_unconfirmed_unauthorized:
  "(get_user_by_username db username = Inr (Some usr) \<and> \<not> u_confirmed usr
      \<and> verify_password password (u_hashed_password usr) \<longrightarrow>
      login_user verify_password sign cfg db username password now
        = Inl (HTTPException 401 Email_not_confirmed))
   \<and> (login_user verify_password sign cfg db username password now = Inr resp \<longrightarrow>
      (\<exists>usr. get_user_by_username db username = Inr (Some usr)
         \<and> verify_password password (u_hashed_password usr) \<and> u_confirmed usr))"
  by (auto simp: login_user_def service_get_user_by_username_def
      split: sum.splits option.splits if_splits)

theorem login_unconfirmed_unauthorized_witness:
  "get_user_by_username [alice, bob] ''bob'' = Inr (Some bob) \<and> \<not> u_confirmed bob
   \<and> check_password ''bbbb'' (u_hashed_password bob)
   \<and> login_user check_password hs256 settings [alice, bob] ''bob'' ''bbbb'' 1000
       = Inl (HTTPException 401 Email_not_confirmed)
   \<and> login_user check_password hs256 settings [alice, bob] ''alice'' ''aaaa'' 1000
       = Inr \<lparr>access_token = create_access_token hs256 settings alice_claims None 1000,
              token_type = ''bearer''\<rparr>
   \<and> (\<exists>usr. get_user_by_username [alice, bob] ''alice'' = Inr (Some usr)
         \<and> check_password ''aaaa'' (u_hashed_password usr) \<and> u_confirmed usr)"
proof -
  have h1: "get_user_by_username [alice, bob] ''bob'' = Inr (Some bob)"
    by (simp add: get_user_by_username_def alice_def bob_def)
  have h2: "\<not> u_confirmed bob"
    by (simp add: bob_def)
  have h3: "check_password ''bbbb'' (u_hashed_password bob)"
    by (simp add: check_password_def bob_def)
  have h4: "get_user_by_username [alice, bob] ''alice'' = Inr (Some alice)"
    by (simp add: get_user_by_username_def alice_def bob_def)
  have ok: "login_user check_password hs256 settings [alice, bob] ''alice'' ''aaaa'' 1000
       = Inr \<lparr>access_token = create_access_token hs256 settings alice_claims None 1000,
              token_type = ''bearer''\<rparr>"
    by (simp add: login_user_def service_get_user_by_username_def h4)
       (simp add: alice_def check_password_def alice_claims_def)
  note res1 = conjunct1 [OF login_unconfirmed_unauthorized
      [where db = "[alice, bob]" and username = "''bob''" and usr = bob
        and verify_password = check_password and password = "''bbbb''" and sign = hs256
        and cfg = settings and now = 1000
        and resp = "\<lparr>access_token = create_access_token hs256 settings alice_claims None 1000,
              token_type = ''bearer''\<rparr>"]]
  note res2 = conjunct2 [OF login_unconfirmed_unauthorized
      [where db = "[alice, bob]" and username = "''alice''" and usr = alice
        and verify_password = check_password and password = "''aaaa''" and sign = hs256
        and cfg = settings and now = 1000
        and resp = "\<lparr>access_token = create_access_token hs256 settings alice_claims None 1000,
              token_type = ''bearer''\<rparr>"]]
  from res1 res2 h1 h2 h3 ok show ?thesis
    by blast
qed

subsection \<open>The cache\<close>

lemma from_directory_found:
  "get_user_by_username db username = Inr (Some usr) \<Longrightarrow>
   fst (from_directory dumps username rc db now) = Inr (Row usr)"
  by (simp add: from_directory_def service_get_user_by_username_def redis_set_def)

lemma from_directory_set_down:
  "get_user_by_username db username = Inr (Some usr) \<Longrightarrow> \<not> set_up rc \<Longrightarrow>
   from_directory dumps username rc db now = (Inr (Row usr), rc)"
  by (simp add: from_directory_def service_get_user_by_username_def redis_set_def)

lemma alice_token_decodes:
  "now \<le> t0 + 3600 \<Longrightarrow>
   jwt_decode hs256 (create_access_token hs256 settings alice_claims None t0)
     (JWT_SECRET settings) [JWT_ALGORITHM settings] now
   = Inr (alice_claims\<lparr>cl_exp := Some (t0 + 3600)\<rparr>)"
  by (simp add: create_access_token_def jwt_decode_encode validate_claims_def alice_claims_def
      settings_def)

text \<open>
  Claim C5. For a valid token whose subject is in the directory: when the cache's \<^verbatim>\<open>get\<close>
  raises \<^verbatim>\<open>RedisError\<close>, or the \<^verbatim>\<open>get\<close> misses and the \<^verbatim>\<open>set\<close> raises \<^verbatim>\<open>RedisError\<close>,
  \<open>get_current_user\<close> returns the directory's row and no exception; when the \<^verbatim>\<open>set\<close> fails
  the cache is left as it was.
\<close>

theorem get_current_user_cache_failure:
  assumes "jwt_decode sign token (JWT_SECRET cfg) [JWT_ALGORITHM cfg] now = Inr payload"
    and "cl_sub payload = Some (JStr username)"
    and "get_user_by_username db username = Inr (Some usr)"
    and "\<not> get_up rc
       \<or> (\<not> set_up rc \<and> (redis_get rc (''user:'' @ username) now = Inr None
                          \<or> redis_get rc (''user:'' @ username) now = Inr (Some [])))"
  shows "fst (get_current_user sign loads dumps cfg token rc db now) = Inr (Row usr)
    \<and> (\<not> set_up rc \<longrightarrow> snd (get_current_user sign loads dumps cfg token rc db now) = rc)"
  using assms(4)
proof
  assume "\<not> get_up rc"
  then have "get_current_user sign loads dumps cfg token rc db now
      = from_directory dumps username rc db now"
    using assms(1,2) by (simp add: get_current_user_def redis_get_def)
  then show ?thesis
    using assms(3) by (simp add: from_directory_found from_directory_set_down)
next
  assume a: "\<not> set_up rc \<and> (redis_get rc (''user:'' @ username) now = Inr None
                          \<or> redis_get rc (''user:'' @ username) now = Inr (Some []))"
  then have "get_current_user sign loads dumps cfg token rc db now
      = from_directory dumps username rc db now"
    using assms(1,2) by (auto simp: get_current_user_def)
  then show ?thesis
    using assms(3) a by (simp add: from_directory_found from_directory_set_down)
qed

theorem get_current_user_cache_failure_witness:
  "get_current_user hs256 loads_name dumps_name settings
      (create_access_token hs256 settings alice_claims None 1000) cache_down [alice, bob] 1500
     = (Inr (Row alice), cache_down)
   \<and> get_current_user hs256 loads_name dumps_name settings
      (create_access_token hs256 settings alice_claims None 1000) cache_read_only [alice, bob] 1500
     = (Inr (Row alice), cache_read_only)"
proof -
  let ?token = "create_access_token hs256 settings alice_claims None 1000"
  let ?payload = "alice_claims\<lparr>cl_exp := Some (1000 + 3600)\<rparr>"
  have h1: "jwt_decode hs256 ?token (JWT_SECRET settings) [JWT_ALGORITHM settings] 1500
      = Inr ?payload"
    by (rule alice_token_decodes) simp
  have h2: "cl_sub ?payload = Some (JStr ''alice'')"
    by (simp add: alice_claims_def)
  have h3: "get_user_by_username [alice, bob] ''alice'' = Inr (Some alice)"
    by (simp add: get_user_by_username_def alice_def bob_def)
  have h4: "\<not> get_up cache_down
       \<or> (\<not> set_up cache_down \<and> (redis_get cache_down (''user:'' @ ''alice'') 1500 = Inr None
            \<or> redis_get cache_down (''user:'' @ ''alice'') 1500 = Inr (Some [])))"
    by (simp add: cache_down_def)
  have h5: "\<not> get_up cache_read_only
       \<or> (\<not> set_up cache_read_only
          \<and> (redis_get cache_read_only (''user:'' @ ''alice'') 1500 = Inr None
            \<or> redis_get cache_read_only (''user:'' @ ''alice'') 1500 = Inr (Some [])))"
    by (simp add: cache_read_only_def redis_get_def)
  have d1: "\<not> set_up cache_down" and d2: "\<not> set_up cache_read_only"
    by (simp_all add: cache_down_def cache_read_only_def)
  note res1 = get_current_user_cache_failure
      [where loads = loads_name and dumps = dumps_name, OF h1 h2 h3 h4]
  note res2 = get_current_user_cache_failure
      [where loads = loads_name and dumps = dumps_name, OF h1 h2 h3 h5]
  from res1 d1 res2 d2 show ?thesis
    by (simp add: prod_eq_iff)
qed

text \<open>
  Claim C10. For a valid token whose subject has a live cache entry (the \<^verbatim>\<open>get\<close> reaches
  the server, the entry has not expired, and its value is a non-empty string that
  deserialises to a user model), \<open>get_current_user\<close> returns the deserialised model and
  leaves the cache as it is, whatever the directory holds: also when the subject is no
  longer in it.
\<close>

theorem get_current_user_cache_hit:
  assumes "jwt_decode sign token (JWT_SECRET cfg) [JWT_ALGORITHM cfg] now = Inr payload"
    and "cl_sub payload = Some (JStr username)"
    and "get_up rc"
    and "map_of (entries rc) (''user:'' @ username) = Some (cached_user, expires_at)"
    and "now < expires_at"
    and "cached_user \<noteq> []"
    and "loads cached_user = Inr u"
  shows "\<forall>db. get_current_user sign loads dumps cfg token rc db now = (Inr (Cached u), rc)"
  using assms by (simp add: get_current_user_def redis_get_def)

theorem get_current_user_cache_hit_witness:
  "get_current_user hs256 loads_name dumps_name settings
      (create_access_token hs256 settings alice_claims None 1000) cache_empty [alice, bob] 1500
     = (Inr (Row alice), cache_alice)
   \<and> get_user_by_username [bob] ''alice'' = Inr None
   \<and> get_current_user hs256 loads_name dumps_name settings
      (create_access_token hs256 settings alice_claims None 1000) cache_alice [bob] 2000
     = (Inr (Cached alice), cache_alice)
   \<and> get_current_user hs256 loads_name dumps_name settings
      (create_access_token hs256 settings alice_claims (Some 9000) 1000) cache_alice [bob] 5100
     = (Inl credentials_exception, cache_alice)"
proof -
  let ?token = "create_access_token hs256 settings alice_claims None 1000"
  let ?payload = "alice_claims\<lparr>cl_exp := Some (1000 + 3600)\<rparr>"
  have h1: "jwt_decode hs256 ?token (JWT_SECRET settings) [JWT_ALGORITHM settings] 2000
      = Inr ?payload"
    by (rule alice_token_decodes) simp
  have h0: "jwt_decode hs256 ?token (JWT_SECRET settings) [JWT_ALGORITHM settings] 1500
      = Inr ?payload"
    by (rule alice_token_decodes) simp
  have h2: "cl_sub ?payload = Some (JStr ''alice'')"
    by (simp add: alice_claims_def)
  have h3: "get_up cache_alice"
    by (simp add: cache_alice_def)
  have h4: "map_of (entries cache_alice) (''user:'' @ ''alice'') = Some (''alice'', 5100)"
    by (simp add: cache_alice_def)
  have h5: "(2000::int) < 5100" and h6: "''alice'' \<noteq> []"
    by simp_all
  have h7: "loads_name ''alice'' = Inr alice"
    by (simp add: loads_name_def)
  have gone: "get_user_by_username [bob] ''alice'' = Inr None"
    by (simp add: get_user_by_username_def bob_def)
  have lk: "get_user_by_username [alice, bob] ''alice'' = Inr (Some alice)"
    by (simp add: get_user_by_username_def alice_def bob_def)
  have dn: "dumps_name alice = ''alice''"
    by (simp add: dumps_name_def alice_def)
  have first: "get_current_user hs256 loads_name dumps_name settings ?token cache_empty
      [alice, bob] 1500 = (Inr (Row alice), cache_alice)"
    by (simp add: get_current_user_def h0)
       (simp add: alice_claims_def redis_get_def cache_empty_def from_directory_def
         service_get_user_by_username_def lk redis_set_def cache_alice_def dn)
  have late: "get_current_user hs256 loads_name dumps_name settings
      (create_access_token hs256 settings alice_claims (Some 9000) 1000) cache_alice [bob] 5100
     = (Inl credentials_exception, cache_alice)"
    by (simp add: get_current_user_def create_access_token_def jwt_decode_encode
        validate_claims_def alice_claims_def settings_def redis_get_def cache_alice_def
        from_directory_def service_get_user_by_username_def get_user_by_username_def bob_def)
  note res = get_current_user_cache_hit
      [where sign = hs256 and cfg = settings and loads = loads_name and dumps = dumps_name
        and username = "''alice''" and cached_user = "''alice''" and rc = cache_alice
        and expires_at = 5100 and now = 2000 and u = alice,
        OF h1 h2 h3 h4 h5 h6 h7, THEN spec, of "[bob]"]
  from res first gone late show ?thesis
    by simp
qed

subsection \<open>Confirming an email\<close>

lemma filter_email_confirm:
  "filter (\<lambda>r. u_email r = email) (map (\<lambda>r. if u_id r = k then r\<lparr>u_confirmed := True\<rparr> else r) db)
   = map (\<lambda>r. if u_id r = k then r\<lparr>u_confirmed := True\<rparr> else r) (filter (\<lambda>r. u_email r = email) db)"
  by (induction db) auto

text \<open>
  Claim C8, as amended. When no user has the email, \<open>confirmed_email\<close> raises
  \<^verbatim>\<open>AttributeError\<close> (there is no not-found error: the function reads an attribute of
  \<^verbatim>\<open>None\<close>) and the table is unchanged; when a user has it, the call returns without an
  error and the user found by the email afterwards is that user with \<open>confirmed = True\<close>.
\<close>

theorem confirmed_email_absent_attribute_error:
  "(get_user_by_email db email = Inr None \<longrightarrow>
      confirmed_email db email = (Inl (AttributeError ''confirmed''), db))
   \<and> (get_user_by_email db email = Inr (Some usr) \<longrightarrow>
      fst (confirmed_email db email) = Inr ()
      \<and> get_user_by_email (snd (confirmed_email db email)) email
          = Inr (Some (usr\<lparr>u_confirmed := True\<rparr>)))"
  by (auto simp: confirmed_email_def get_user_by_email_def filter_email_confirm
      scalar_one_or_none_Some_iff)

theorem confirmed_email_absent_attribute_error_witness:
  "get_user_by_email [alice, bob] ''carol@example.com'' = Inr None
   \<and> confirmed_email [alice, bob] ''carol@example.com''
       = (Inl (AttributeError ''confirmed''), [alice, bob])
   \<and> get_user_by_email [alice, bob] ''bob@example.com'' = Inr (Some bob)
   \<and> confirmed_email [alice, bob] ''bob@example.com''
       = (Inr (), [alice, bob\<lparr>u_confirmed := True\<rparr>])
   \<and> get_user_by_email (snd (confirmed_email [alice, bob] ''bob@example.com'')) ''bob@example.com''
       = Inr (Some (bob\<lparr>u_confirmed := True\<rparr>))"
proof -
  have h1: "get_user_by_email [alice, bob] ''carol@example.com'' = Inr None"
    by (simp add: get_user_by_email_def alice_def bob_def)
  have h2: "get_user_by_email [alice, bob] ''bob@example.com'' = Inr (Some bob)"
    by (simp add: get_user_by_email_def alice_def bob_def)
  have ids: "u_id alice = 1" "u_id bob = 2"
    by (simp_all add: alice_def bob_def)
  have tbl: "confirmed_email [alice, bob] ''bob@example.com''
       = (Inr (), [alice, bob\<lparr>u_confirmed := True\<rparr>])"
    by (simp add: confirmed_email_def h2 ids)
  note res1 = conjunct1 [OF confirmed_email_absent_attribute_error
      [where db = "[alice, bob]" and email = "''carol@example.com''" and usr = bob]]
  note res2 = conjunct2 [OF confirmed_email_absent_attribute_error
      [where db = "[alice, bob]" and email = "''bob@example.com''" and usr = bob]]
  from res1 res2 h1 h2 tbl show ?thesis
    by blast
qed

text \<open>
  The claim as the specification states it (the failure is a not-found error) is false
  of the code: for an email that no user has, the exception is \<^verbatim>\<open>AttributeError\<close>, where
  the sibling \<open>update_password\<close> raises \<^verbatim>\<open>NoResultFound\<close>.
\<close>

theorem confirmed_email_not_found_counterexample:
  "fst (confirmed_email [alice, bob] ''carol@example.com'') = Inl (AttributeError ''confirmed'')
   \<and> fst (confirmed_email [alice, bob] ''carol@example.com'') \<noteq> Inl NoResultFound
   \<and> fst (update_password [alice, bob] ''carol@example.com'' ''$2b$12$cccc'') = Inl NoResultFound"
  by (simp add: confirmed_email_def get_user_by_email_def update_password_def alice_def bob_def)

subsection \<open>Birthdays\<close>

lemma days_in_month_ge: "28 \<le> days_in_month y m"
  by (simp add: days_in_month_def)

lemma add_days_same_month:
  "day d + int k \<le> days_in_month (year d) (month d) \<Longrightarrow>
   add_days d k = d\<lparr>day := day d + int k\<rparr>"
proof (induction k arbitrary: d)
  case 0
  then show ?case by simp
next
  case (Suc k)
  then have "next_day d = d\<lparr>day := day d + 1\<rparr>"
    by (simp add: next_day_def)
  with Suc show ?case
    by (simp add: add.commute add.left_commute)
qed

lemma add_days_next_month:
  "day d \<le> days_in_month (year d) (month d) \<Longrightarrow>
   days_in_month (year d) (month d) < day d + int k \<Longrightarrow>
   add_days d k = add_days (first_of_next d) (k - nat (days_in_month (year d) (month d) - day d) - 1)"
proof (induction k arbitrary: d)
  case 0
  then show ?case by simp
next
  case (Suc k)
  show ?case
  proof (cases "day d < days_in_month (year d) (month d)")
    case True
    then have nd: "next_day d = d\<lparr>day := day d + 1\<rparr>"
      by (simp add: next_day_def)
    have "add_days (next_day d) k = add_days (first_of_next (next_day d))
        (k - nat (days_in_month (year (next_day d)) (month (next_day d)) - day (next_day d)) - 1)"
      by (rule Suc.IH) (use True Suc.prems in \<open>simp_all add: nd\<close>)
    moreover have "first_of_next (next_day d) = first_of_next d"
      by (simp add: nd first_of_next_def)
    moreover have "k - nat (days_in_month (year d) (month d) - (day d + 1)) - 1
        = Suc k - nat (days_in_month (year d) (month d) - day d) - 1"
      using True by (simp add: nat_diff_distrib)
    ultimately show ?thesis
      by (simp add: nd)
  next
    case False
    with Suc.prems have eq: "day d = days_in_month (year d) (month d)"
      by simp
    then have "next_day d = first_of_next d"
      by (simp add: next_day_def)
    then show ?thesis
      by (simp add: eq)
  qed
qed

text \<open>
  One half of the specification's condition holds of the query on every valid date: a
  birthday whose month and day are those of one of the days \<open>today\<close>, ..., \<open>today + 7\<close>
  passes the query's test, across the end of a month and of a year.
\<close>

lemma birthday_within_window_selected:
  assumes "day today \<le> days_in_month (year today) (month today)"
    and "spec_birthday_within today 7 b"
  shows "birthday_soon today b"
proof -
  let ?dim = "days_in_month (year today) (month today)"
  from assms(2) obtain k where k8: "k < 8" and kb: "month (add_days today k) = month b"
      "day (add_days today k) = day b"
    by (auto simp: spec_birthday_within_def list_ex_iff)
  from k8 have "k \<le> 7"
    by simp
  note k = this kb
  have roll: "add_days today j = (first_of_next today)\<lparr>day := 1 + int (j - nat (?dim - day today) - 1)\<rparr>"
    if "j \<le> 7" "?dim < day today + int j" for j
  proof -
    have "add_days today j = add_days (first_of_next today) (j - nat (?dim - day today) - 1)"
      using assms(1) that(2) by (rule add_days_next_month)
    also have "\<dots> = (first_of_next today)\<lparr>day := day (first_of_next today) + int (j - nat (?dim - day today) - 1)\<rparr>"
    proof (rule add_days_same_month)
      have "28 \<le> days_in_month (year (first_of_next today)) (month (first_of_next today))"
        by (rule days_in_month_ge)
      moreover have "day (first_of_next today) = 1"
        by (simp add: first_of_next_def)
      ultimately show "day (first_of_next today) + int (j - nat (?dim - day today) - 1)
          \<le> days_in_month (year (first_of_next today)) (month (first_of_next today))"
        using that(1) by linarith
    qed
    also have "day (first_of_next today) = 1"
      by (simp add: first_of_next_def)
    finally show ?thesis .
  qed
  show ?thesis
  proof (cases "day today + int k \<le> ?dim")
    case True
    then have "add_days today k = today\<lparr>day := day today + int k\<rparr>"
      by (rule add_days_same_month)
    with k have "month b = month today" "day today \<le> day b"
      by auto
    then show ?thesis
      by (simp add: birthday_soon_def)
  next
    case False
    then have over: "?dim < day today + int k" and over7: "?dim < day today + int 7"
      using k(1) by linarith+
    have bk: "month b = month (first_of_next today)"
        "day b = 1 + int (k - nat (?dim - day today) - 1)"
      using roll [OF k(1) over] k(2,3) by auto
    have l7: "month (add_days today 7) = month (first_of_next today)"
        "day (add_days today 7) = 1 + int (7 - nat (?dim - day today) - 1)"
      using roll [of 7] over7 by auto
    have "day b \<le> day (add_days today 7)"
      using bk(2) l7(2) k(1) by linarith
    with bk(1) l7(1) show ?thesis
      by (simp add: birthday_soon_def)
  qed
qed

text \<open>
  The example of the specification: on 28 December 2024 a birthday on 2 January is
  selected, and it is within the seven days.
\<close>

lemma birthday_soon_year_boundary:
  "get_contacts_birthday_soon [marta, ivan] alice \<lparr>year = 2024, month = 12, day = 28\<rparr> = [ivan]
   \<and> spec_birthday_within \<lparr>year = 2024, month = 12, day = 28\<rparr> 7 \<lparr>year = 1985, month = 1, day = 2\<rparr>"
  by (simp add: get_contacts_birthday_soon_def birthday_soon_def spec_birthday_within_def
      eval_nat_numeral next_day_def first_of_next_def days_in_month_def is_leap_def marta_def
      ivan_def alice_def upt_rec)

text \<open>
  Claim C6. The claim fails when today and the seventh day after it are in the same
  month: on 10 March 2024 the query selects a contact whose birthday is 31 March, which
  is not one of the days 10 March, ..., 17 March. The two tests of the query, on the day
  from today's and on the day up to the seventh day's, are joined by \<^verbatim>\<open>or_\<close>, so in that
  month every day passes one of them.
\<close>

theorem birthday_soon_selects_outside_window:
  "get_contacts_birthday_soon [marta, ivan] alice \<lparr>year = 2024, month = 3, day = 10\<rparr> = [marta]
   \<and> \<not> spec_birthday_within \<lparr>year = 2024, month = 3, day = 10\<rparr> 7
         \<lparr>year = 1990, month = 3, day = 31\<rparr>"
  by (simp add: get_contacts_birthday_soon_def birthday_soon_def spec_birthday_within_def
      eval_nat_numeral next_day_def first_of_next_def days_in_month_def is_leap_def marta_def
      ivan_def alice_def upt_rec)

end
